theory Spec2Isabelle
  imports Main "HOL-Library.Word"
begin

section \<open>The Script class of libbcc (lib/ExecutionEngine/Script.h)\<close>

text \<open>
  The header declares class \<^verbatim>\<open>bcc::Script\<close>. Seven member functions have their bodies in
  the header: the constructor, \<^verbatim>\<open>markExternalSymbol\<close>, \<^verbatim>\<open>getUserDefinedExternalSymbols\<close>,
  \<^verbatim>\<open>setError\<close>, \<^verbatim>\<open>getError\<close> and the private \<^verbatim>\<open>getCachedObjectPath\<close> and
  \<^verbatim>\<open>getCacheInfoPath\<close>. They are embedded below as functions on a record of the
  data members. Every other member function is only declared there.

  The model is the class as compiled with \<^verbatim>\<open>USE_CACHE\<close> on: the status \<^verbatim>\<open>Cached\<close>, the
  members \<^verbatim>\<open>mCacheDir\<close> and \<^verbatim>\<open>mCacheName\<close> and the two path functions exist only then.
  Running out of memory in \<^verbatim>\<open>std::string\<close> or \<^verbatim>\<open>std::vector\<close> is not modelled.
\<close>

subsection \<open>Data\<close>

text \<open>A C pointer: the null pointer or an address. Pointers are compared, never followed.\<close>

datatype ptr = NULL | Addr nat

text \<open>The C type \<^verbatim>\<open>int\<close> of the error code.\<close>

type_synonym int32 = "32 word"

text \<open>\<^verbatim>\<open>enum ScriptStatus::StatusType { Unknown, Compiled, Cached }\<close>\<close>

datatype StatusType =
    ScriptStatus_Unknown
  | ScriptStatus_Compiled
  | ScriptStatus_Cached

text \<open>\<^verbatim>\<open>enum ScriptObject::ObjectType { Unknown, Relocatable, SharedObject, Executable }\<close>\<close>

datatype ObjectType =
    ScriptObject_Unknown
  | ScriptObject_Relocatable
  | ScriptObject_SharedObject
  | ScriptObject_Executable

text \<open>
  What the header takes from files that are not part of it: the constant
  \<^verbatim>\<open>BCC_NO_ERROR\<close> of \<^verbatim>\<open>bcc/bcc.h\<close>, the preprocessor switches \<^verbatim>\<open>USE_OLD_JIT\<close> and
  \<^verbatim>\<open>USE_MCJIT\<close> that select the bodies of the path functions, and \<^verbatim>\<open>NDEBUG\<close>, which
  turns \<^verbatim>\<open>assert\<close> into nothing. They are parameters of the model: every theorem below
  holds for each value of \<^verbatim>\<open>BCC_NO_ERROR\<close>.
\<close>

record config =
  BCC_NO_ERROR :: int32
  USE_OLD_JIT :: bool
  USE_MCJIT :: bool
  NDEBUG :: bool

text \<open>
  The data members of \<^verbatim>\<open>Script\<close>, in the order of the class. The anonymous union
  of \<^verbatim>\<open>ScriptCompiled *mCompiled\<close> and \<^verbatim>\<open>ScriptCached *mCached\<close> is one pointer cell: the
  field \<open>mCompiled\<close> is that cell, and \<open>mCached\<close> below reads the same cell.
  \<^verbatim>\<open>mSourceList\<close> is the array of two \<^verbatim>\<open>SourceInfo *\<close>. The vector
  \<^verbatim>\<open>mUserDefinedExternalSymbols\<close> holds the \<^verbatim>\<open>char const *\<close> values it was given: the
  names are not copied.
\<close>

record Script =
  mErrorCode :: int32
  mStatus :: StatusType
  mObjectType :: ObjectType
  mCompiled :: ptr
  mCacheDir :: string
  mCacheName :: string
  mIsContextSlotNotAvail :: bool
  mSourceList :: "ptr list"
  mUserDefinedExternalSymbols :: "ptr list"
  mpExtSymbolLookupFn :: ptr
  mpExtSymbolLookupFnContext :: ptr

definition mCached :: "Script \<Rightarrow> ptr" where
  "mCached s = mCompiled s"

text \<open>
  How a call can end without a value: \<^verbatim>\<open>assert(false && "Unknown object type!")\<close> aborts,
  and with neither \<^verbatim>\<open>USE_OLD_JIT\<close> nor \<^verbatim>\<open>USE_MCJIT\<close> the path functions have no
  \<^verbatim>\<open>return\<close> at all.
\<close>

datatype error = AssertionFailed | NoReturnValue

subsection \<open>The error code\<close>

text \<open>
  \<^verbatim>\<open>void setError(int error) {
    if (mErrorCode == BCC_NO_ERROR && error != BCC_NO_ERROR) { mErrorCode = error; } }\<close>
\<close>

definition setError :: "config \<Rightarrow> Script \<Rightarrow> int32 \<Rightarrow> Script" where
  "setError cfg s error =
     (if mErrorCode s = BCC_NO_ERROR cfg \<and> error \<noteq> BCC_NO_ERROR cfg
      then s\<lparr>mErrorCode := error\<rparr>
      else s)"

text \<open>
  \<^verbatim>\<open>int getError() { int result = mErrorCode; mErrorCode = BCC_NO_ERROR; return result; }\<close>
  The model returns the result and the Script after the call.
\<close>

definition getError :: "config \<Rightarrow> Script \<Rightarrow> int32 \<times> Script" where
  "getError cfg s = (mErrorCode s, s\<lparr>mErrorCode := BCC_NO_ERROR cfg\<rparr>)"

subsection \<open>Cache paths\<close>

text \<open>
  \<^verbatim>\<open>getCachedObjectPath\<close>: with \<^verbatim>\<open>USE_OLD_JIT\<close> the path is
  \<^verbatim>\<open>mCacheDir + mCacheName + ".jit-image"\<close>; otherwise, with \<^verbatim>\<open>USE_MCJIT\<close>, it is
  \<^verbatim>\<open>mCacheDir + mCacheName\<close> with the suffix the \<^verbatim>\<open>switch (mObjectType)\<close> appends. The
  \<^verbatim>\<open>default\<close> case is the \<^verbatim>\<open>assert(false)\<close>; under \<^verbatim>\<open>NDEBUG\<close> it does nothing and
  control reaches \<^verbatim>\<open>return objPath\<close>.
\<close>

definition getCachedObjectPath :: "config \<Rightarrow> Script \<Rightarrow> error + string" where
  "getCachedObjectPath cfg s =
     (if USE_OLD_JIT cfg then Inr (mCacheDir s @ mCacheName s @ ''.jit-image'')
      else if USE_MCJIT cfg then
        (let objPath = mCacheDir s @ mCacheName s in
         case mObjectType s of
           ScriptObject_Relocatable \<Rightarrow> Inr (objPath @ ''.o'')
         | ScriptObject_Executable \<Rightarrow> Inr (objPath @ ''.o'')
         | ScriptObject_SharedObject \<Rightarrow> Inr (objPath @ ''.so'')
         | ScriptObject_Unknown \<Rightarrow>
             if NDEBUG cfg then Inr objPath else Inl AssertionFailed)
      else Inl NoReturnValue)"


subsection \<open>Construction\<close>

text \<open>
  \<^verbatim>\<open>Script() : mErrorCode(BCC_NO_ERROR), mStatus(ScriptStatus::Unknown),
             mObjectType(ScriptObject::Unknown), mIsContextSlotNotAvail(false),
             mpExtSymbolLookupFn(NULL), mpExtSymbolLookupFnContext(NULL) {
    Compiler::GlobalInitialization();
    mSourceList[0] = NULL;
    mSourceList[1] = NULL; }\<close>

  The constructor runs in a process: \<open>g\<close> is the state of the process outside the
  Script, and \<open>GlobalInitialization\<close> is what \<^verbatim>\<open>Compiler::GlobalInitialization()\<close> (of
  Compiler.h) does to it. The union cell is not initialised: it keeps the value
  \<open>indeterminate\<close> that the memory held. The strings and the vector are
  default-constructed, so empty.
\<close>

definition Script_ctor :: "config \<Rightarrow> ('g \<Rightarrow> 'g) \<Rightarrow> ptr \<Rightarrow> 'g \<Rightarrow> Script \<times> 'g" where
  "Script_ctor cfg GlobalInitialization indeterminate g =
     (\<lparr>mErrorCode = BCC_NO_ERROR cfg,
       mStatus = ScriptStatus_Unknown,
       mObjectType = ScriptObject_Unknown,
       mCompiled = indeterminate,
       mCacheDir = [],
       mCacheName = [],
       mIsContextSlotNotAvail = False,
       mSourceList = [NULL, NULL],
       mUserDefinedExternalSymbols = [],
       mpExtSymbolLookupFn = NULL,
       mpExtSymbolLookupFnContext = NULL\<rparr>,
      GlobalInitialization g)"

subsection \<open>External symbols\<close>

text \<open>
  \<^verbatim>\<open>void markExternalSymbol(char const *name) { mUserDefinedExternalSymbols.push_back(name); }\<close>
\<close>

definition markExternalSymbol :: "Script \<Rightarrow> ptr \<Rightarrow> Script" where
  "markExternalSymbol s name =
     s\<lparr>mUserDefinedExternalSymbols := mUserDefinedExternalSymbols s @ [name]\<rparr>"

text \<open>
  \<^verbatim>\<open>std::vector<char const *> const &getUserDefinedExternalSymbols() const {
    return mUserDefinedExternalSymbols; }\<close>
\<close>

definition getUserDefinedExternalSymbols :: "Script \<Rightarrow> ptr list" where
  "getUserDefinedExternalSymbols s = mUserDefinedExternalSymbols s"

subsection \<open>The path derivation as the specification words it\<close>


subsection \<open>Introspection accessors\<close>

text \<open>
  The header declares the accessors \<^verbatim>\<open>getExportVarCount\<close>, \<^verbatim>\<open>getExportFuncCount\<close>,
  \<^verbatim>\<open>getExportForEachCount\<close>, \<^verbatim>\<open>getPragmaCount\<close>, \<^verbatim>\<open>getFuncCount\<close>,
  \<^verbatim>\<open>getObjectSlotCount\<close>, \<^verbatim>\<open>getELFSize\<close> and \<^verbatim>\<open>getELF\<close>; their bodies are in Script.cpp,
  and the classes \<^verbatim>\<open>ScriptCompiled\<close> and \<^verbatim>\<open>ScriptCached\<close> they read are only named. The
  specification describes the compiled unit as an export table (2: exported variables,
  exported functions, per-element kernels, key/value pragmas, function descriptors,
  object-slot indices) with the raw compiled bytes (4.4). \<open>ExportTable\<close> is that view,
  and the parameter \<open>unit\<close> of the accessors gives the table of the object a pointer
  refers to.
\<close>

record ExportTable =
  exportVars :: "ptr list"
  exportFuncs :: "ptr list"
  exportForEach :: "ptr list"
  pragmas :: "(string \<times> string) list"
  funcInfos :: "string list"
  objectSlots :: "32 word list"
  elf :: "8 word list"

text \<open>
  Modelled from the spec: the body of \<^verbatim>\<open>Script::getExportVarCount\<close> is missing. 4.4:
  "\<^verbatim>\<open>getXCount()\<close>, valid only when status is Compiled or Cached; returns 0 otherwise";
  the unit is selected by the status (3).
\<close>

definition getExportVarCount :: "(ptr \<Rightarrow> ExportTable) \<Rightarrow> Script \<Rightarrow> nat" where
  "getExportVarCount unit s =
     (case mStatus s of
        ScriptStatus_Compiled \<Rightarrow> length (exportVars (unit (mCompiled s)))
      | ScriptStatus_Cached \<Rightarrow> length (exportVars (unit (mCached s)))
      | ScriptStatus_Unknown \<Rightarrow> 0)"

text \<open>
  Modelled from the spec: the body of \<^verbatim>\<open>Script::getExportFuncCount\<close> is missing; 4.4 as
  above, for the exported functions.
\<close>

definition getExportFuncCount :: "(ptr \<Rightarrow> ExportTable) \<Rightarrow> Script \<Rightarrow> nat" where
  "getExportFuncCount unit s =
     (case mStatus s of
        ScriptStatus_Compiled \<Rightarrow> length (exportFuncs (unit (mCompiled s)))
      | ScriptStatus_Cached \<Rightarrow> length (exportFuncs (unit (mCached s)))
      | ScriptStatus_Unknown \<Rightarrow> 0)"

text \<open>
  Modelled from the spec: the body of \<^verbatim>\<open>Script::getExportForEachCount\<close> is missing; 4.4
  as above, for the per-element kernels.
\<close>

definition getExportForEachCount :: "(ptr \<Rightarrow> ExportTable) \<Rightarrow> Script \<Rightarrow> nat" where
  "getExportForEachCount unit s =
     (case mStatus s of
        ScriptStatus_Compiled \<Rightarrow> length (exportForEach (unit (mCompiled s)))
      | ScriptStatus_Cached \<Rightarrow> length (exportForEach (unit (mCached s)))
      | ScriptStatus_Unknown \<Rightarrow> 0)"

text \<open>
  Modelled from the spec: the body of \<^verbatim>\<open>Script::getPragmaCount\<close> is missing; 4.4 as
  above, for the pragmas.
\<close>

definition getPragmaCount :: "(ptr \<Rightarrow> ExportTable) \<Rightarrow> Script \<Rightarrow> nat" where
  "getPragmaCount unit s =
     (case mStatus s of
        ScriptStatus_Compiled \<Rightarrow> length (pragmas (unit (mCompiled s)))
      | ScriptStatus_Cached \<Rightarrow> length (pragmas (unit (mCached s)))
      | ScriptStatus_Unknown \<Rightarrow> 0)"

text \<open>
  Modelled from the spec: the body of \<^verbatim>\<open>Script::getFuncCount\<close> is missing; 4.4 as above,
  for the function descriptors.
\<close>

definition getFuncCount :: "(ptr \<Rightarrow> ExportTable) \<Rightarrow> Script \<Rightarrow> nat" where
  "getFuncCount unit s =
     (case mStatus s of
        ScriptStatus_Compiled \<Rightarrow> length (funcInfos (unit (mCompiled s)))
      | ScriptStatus_Cached \<Rightarrow> length (funcInfos (unit (mCached s)))
      | ScriptStatus_Unknown \<Rightarrow> 0)"

text \<open>
  Modelled from the spec: the body of \<^verbatim>\<open>Script::getObjectSlotCount\<close> is missing; 4.4 as
  above, for the object-slot indices.
\<close>

definition getObjectSlotCount :: "(ptr \<Rightarrow> ExportTable) \<Rightarrow> Script \<Rightarrow> nat" where
  "getObjectSlotCount unit s =
     (case mStatus s of
        ScriptStatus_Compiled \<Rightarrow> length (objectSlots (unit (mCompiled s)))
      | ScriptStatus_Cached \<Rightarrow> length (objectSlots (unit (mCached s)))
      | ScriptStatus_Unknown \<Rightarrow> 0)"

text \<open>
  Modelled from the spec: the body of \<^verbatim>\<open>Script::getELFSize\<close> is missing. 4.4: "expose the
  raw compiled bytes and their length directly; valid only post-success"; 3: "status
  Unknown implies no compiled bytes are retrievable; all introspection accessors return
  empty/zero".
\<close>

definition getELFSize :: "(ptr \<Rightarrow> ExportTable) \<Rightarrow> Script \<Rightarrow> nat" where
  "getELFSize unit s =
     (case mStatus s of
        ScriptStatus_Compiled \<Rightarrow> length (elf (unit (mCompiled s)))
      | ScriptStatus_Cached \<Rightarrow> length (elf (unit (mCached s)))
      | ScriptStatus_Unknown \<Rightarrow> 0)"

text \<open>
  Modelled from the spec: the body of \<^verbatim>\<open>Script::getELF\<close> is missing; 4.4 and 3 as for
  \<^verbatim>\<open>getELFSize\<close>. The result \<^verbatim>\<open>const char *\<close> is the bytes it points to, \<open>None\<close> being
  the null pointer.
\<close>

definition getELF :: "(ptr \<Rightarrow> ExportTable) \<Rightarrow> Script \<Rightarrow> 8 word list option" where
  "getELF unit s =
     (case mStatus s of
        ScriptStatus_Compiled \<Rightarrow> Some (elf (unit (mCompiled s)))
      | ScriptStatus_Cached \<Rightarrow> Some (elf (unit (mCached s)))
      | ScriptStatus_Unknown \<Rightarrow> None)"

subsection \<open>Concrete values for the examples\<close>

text \<open>
  A build with MCJIT and assertions on, \<^verbatim>\<open>BCC_NO_ERROR\<close> being 0, and the Script that
  the constructor makes there when the process state is a counter of initialisation
  calls.
\<close>

definition mcjit_build :: config where
  "mcjit_build = \<lparr>BCC_NO_ERROR = 0, USE_OLD_JIT = False, USE_MCJIT = True, NDEBUG = False\<rparr>"

definition fresh_script :: Script where
  "fresh_script = fst (Script_ctor mcjit_build Suc NULL (0::nat))"

text \<open>A unit table that holds nothing, for every pointer.\<close>

definition empty_unit :: "ptr \<Rightarrow> ExportTable" where
  "empty_unit p = \<lparr>exportVars = [], exportFuncs = [], exportForEach = [], pragmas = [],
     funcInfos = [], objectSlots = [], elf = []\<rparr>"

section \<open>The error code: first error wins, reading clears\<close>

lemma setError_pending:
  "mErrorCode s \<noteq> BCC_NO_ERROR cfg \<Longrightarrow> setError cfg s B = s"
  by (simp add: setError_def)

lemma foldl_setError_pending:
  "mErrorCode s \<noteq> BCC_NO_ERROR cfg \<Longrightarrow> foldl (setError cfg) s Bs = s"
  by (induction Bs) (simp_all add: setError_pending)

lemma setError_changes_iff:
  "setError cfg s B \<noteq> s \<longleftrightarrow> mErrorCode s = BCC_NO_ERROR cfg \<and> B \<noteq> BCC_NO_ERROR cfg"
proof
  assume "setError cfg s B \<noteq> s"
  then show "mErrorCode s = BCC_NO_ERROR cfg \<and> B \<noteq> BCC_NO_ERROR cfg"
    by (auto simp: setError_def split: if_splits)
next
  assume c: "mErrorCode s = BCC_NO_ERROR cfg \<and> B \<noteq> BCC_NO_ERROR cfg"
  then have "mErrorCode (setError cfg s B) = B"
    by (simp add: setError_def)
  with c show "setError cfg s B \<noteq> s"
    by auto
qed

text \<open>
  C1. First error wins. \<open>setError cfg s B\<close> stores \<open>B\<close> in \<open>mErrorCode\<close> when
  \<open>mErrorCode s\<close> is \<^verbatim>\<open>BCC_NO_ERROR\<close> and \<open>B\<close> is not; in every other case the Script is
  returned as it was. So the call changes the Script exactly in the first case, and
  once an error is pending no sequence \<open>Bs\<close> of later \<open>setError\<close> calls changes it.
\<close>

theorem setError_first_error_wins:
  "(mErrorCode s = BCC_NO_ERROR cfg \<and> B \<noteq> BCC_NO_ERROR cfg
      \<longrightarrow> setError cfg s B = s\<lparr>mErrorCode := B\<rparr>)
   \<and> (\<not> (mErrorCode s = BCC_NO_ERROR cfg \<and> B \<noteq> BCC_NO_ERROR cfg)
      \<longrightarrow> setError cfg s B = s)
   \<and> (setError cfg s B \<noteq> s
      \<longleftrightarrow> mErrorCode s = BCC_NO_ERROR cfg \<and> B \<noteq> BCC_NO_ERROR cfg)
   \<and> (mErrorCode s \<noteq> BCC_NO_ERROR cfg
      \<longrightarrow> mErrorCode (foldl (setError cfg) s Bs) = mErrorCode s)"
proof (intro conjI impI)
  assume "mErrorCode s = BCC_NO_ERROR cfg \<and> B \<noteq> BCC_NO_ERROR cfg"
  then show "setError cfg s B = s\<lparr>mErrorCode := B\<rparr>"
    by (simp add: setError_def)
next
  assume "\<not> (mErrorCode s = BCC_NO_ERROR cfg \<and> B \<noteq> BCC_NO_ERROR cfg)"
  then show "setError cfg s B = s"
    by (simp add: setError_def)
next
  show "setError cfg s B \<noteq> s
      \<longleftrightarrow> mErrorCode s = BCC_NO_ERROR cfg \<and> B \<noteq> BCC_NO_ERROR cfg"
    by (rule setError_changes_iff)
next
  assume "mErrorCode s \<noteq> BCC_NO_ERROR cfg"
  then show "mErrorCode (foldl (setError cfg) s Bs) = mErrorCode s"
    by (simp add: foldl_setError_pending)
qed

text \<open>
  The theorem at work: on the fresh Script the error 7 is stored, and on the Script
  with 7 pending the errors 9, 0 and 11 leave 7 in place.
\<close>

theorem setError_first_error_wins_witness:
  "mErrorCode fresh_script = BCC_NO_ERROR mcjit_build
   \<and> (7::int32) \<noteq> BCC_NO_ERROR mcjit_build
   \<and> setError mcjit_build fresh_script 7 = fresh_script\<lparr>mErrorCode := 7\<rparr>
   \<and> mErrorCode (fresh_script\<lparr>mErrorCode := 7\<rparr>) \<noteq> BCC_NO_ERROR mcjit_build
   \<and> setError mcjit_build (fresh_script\<lparr>mErrorCode := 7\<rparr>) 9 = fresh_script\<lparr>mErrorCode := 7\<rparr>
   \<and> mErrorCode (foldl (setError mcjit_build) (fresh_script\<lparr>mErrorCode := 7\<rparr>) [9, 0, 11]) = 7"
  using setError_first_error_wins [of fresh_script mcjit_build 7 "[]"]
    setError_first_error_wins [of "fresh_script\<lparr>mErrorCode := 7\<rparr>" mcjit_build 9 "[9, 0, 11]"]
  by (simp add: fresh_script_def mcjit_build_def Script_ctor_def setError_def)

text \<open>
  C2. \<open>getError\<close> reads and clears: in every state it returns the pending code
  \<open>mErrorCode s\<close> and leaves \<^verbatim>\<open>BCC_NO_ERROR\<close> in its place, changing nothing else. In the
  scenario \<open>setError A\<close>, \<open>setError B\<close> with \<open>A\<close> and \<open>B\<close> both different from
  \<^verbatim>\<open>BCC_NO_ERROR\<close> and from each other, started with no error pending (as on a new
  Script), the first \<open>getError\<close> returns \<open>A\<close> and the second returns \<^verbatim>\<open>BCC_NO_ERROR\<close>.
\<close>

theorem getError_read_and_clear:
  "fst (getError cfg s) = mErrorCode s
   \<and> snd (getError cfg s) = s\<lparr>mErrorCode := BCC_NO_ERROR cfg\<rparr>
   \<and> mErrorCode (snd (getError cfg s)) = BCC_NO_ERROR cfg
   \<and> (mErrorCode s = BCC_NO_ERROR cfg \<and> A \<noteq> BCC_NO_ERROR cfg \<and> B \<noteq> BCC_NO_ERROR cfg \<and> A \<noteq> B
      \<longrightarrow> fst (getError cfg (setError cfg (setError cfg s A) B)) = A
        \<and> fst (getError cfg (snd (getError cfg (setError cfg (setError cfg s A) B))))
            = BCC_NO_ERROR cfg)"
  by (simp add: getError_def setError_def)

text \<open>The scenario on the fresh Script with the errors 7 and 9.\<close>

theorem getError_read_and_clear_witness:
  "mErrorCode fresh_script = BCC_NO_ERROR mcjit_build
   \<and> (7::int32) \<noteq> BCC_NO_ERROR mcjit_build \<and> (9::int32) \<noteq> BCC_NO_ERROR mcjit_build
   \<and> (7::int32) \<noteq> 9
   \<and> fst (getError mcjit_build (setError mcjit_build (setError mcjit_build fresh_script 7) 9)) = 7
   \<and> fst (getError mcjit_build (snd (getError mcjit_build
        (setError mcjit_build (setError mcjit_build fresh_script 7) 9)))) = 0"
  using getError_read_and_clear [of mcjit_build fresh_script 7 9]
  by (simp add: fresh_script_def mcjit_build_def Script_ctor_def)

section \<open>Cache paths\<close>



text \<open>
  C9. The assertion of \<open>getCachedObjectPath\<close>. With the object kind Relocatable,
  Executable or SharedObject the call never ends in the failed assertion, in any build.
  In the MCJIT build with the kind \<^verbatim>\<open>Unknown\<close> the call ends in the failed assertion when
  assertions are on and returns the bare \<^verbatim>\<open>mCacheDir + mCacheName\<close>, with no suffix, when
  they are off (\<^verbatim>\<open>NDEBUG\<close>). The last conjunct says that this is the only way to the
  assertion.
\<close>

theorem getCachedObjectPath_assertion:
  "(mObjectType s \<in> {ScriptObject_Relocatable, ScriptObject_Executable, ScriptObject_SharedObject}
      \<longrightarrow> getCachedObjectPath cfg s \<noteq> Inl AssertionFailed)
   \<and> (\<not> USE_OLD_JIT cfg \<and> USE_MCJIT cfg \<and> mObjectType s = ScriptObject_Unknown \<and> \<not> NDEBUG cfg
      \<longrightarrow> getCachedObjectPath cfg s = Inl AssertionFailed)
   \<and> (\<not> USE_OLD_JIT cfg \<and> USE_MCJIT cfg \<and> mObjectType s = ScriptObject_Unknown \<and> NDEBUG cfg
      \<longrightarrow> getCachedObjectPath cfg s = Inr (mCacheDir s @ mCacheName s))
   \<and> (getCachedObjectPath cfg s = Inl AssertionFailed
      \<longleftrightarrow> \<not> USE_OLD_JIT cfg \<and> USE_MCJIT cfg \<and> mObjectType s = ScriptObject_Unknown
          \<and> \<not> NDEBUG cfg)"
  by (cases "mObjectType s") (simp_all add: getCachedObjectPath_def)

text \<open>
  An executable passes; the fresh Script, whose kind is \<^verbatim>\<open>Unknown\<close>, fails the assertion;
  with \<^verbatim>\<open>NDEBUG\<close> a Script of kind \<^verbatim>\<open>Unknown\<close> gets the path without suffix.
\<close>

theorem getCachedObjectPath_assertion_witness:
  "mObjectType (fresh_script\<lparr>mObjectType := ScriptObject_Executable\<rparr>)
     \<in> {ScriptObject_Relocatable, ScriptObject_Executable, ScriptObject_SharedObject}
   \<and> getCachedObjectPath mcjit_build (fresh_script\<lparr>mObjectType := ScriptObject_Executable\<rparr>)
       \<noteq> Inl AssertionFailed
   \<and> mObjectType fresh_script = ScriptObject_Unknown
   \<and> \<not> USE_OLD_JIT mcjit_build \<and> USE_MCJIT mcjit_build \<and> \<not> NDEBUG mcjit_build
   \<and> getCachedObjectPath mcjit_build fresh_script = Inl AssertionFailed
   \<and> NDEBUG (mcjit_build\<lparr>NDEBUG := True\<rparr>)
   \<and> getCachedObjectPath (mcjit_build\<lparr>NDEBUG := True\<rparr>)
        (fresh_script\<lparr>mCacheDir := ''/data/cache/'', mCacheName := ''a''\<rparr>) = Inr ''/data/cache/a''"
  using getCachedObjectPath_assertion [of "fresh_script\<lparr>mObjectType := ScriptObject_Executable\<rparr>" mcjit_build]
    getCachedObjectPath_assertion [of fresh_script mcjit_build]
    getCachedObjectPath_assertion [of "fresh_script\<lparr>mCacheDir := ''/data/cache/'', mCacheName := ''a''\<rparr>"
      "mcjit_build\<lparr>NDEBUG := True\<rparr>"]
  by (simp add: fresh_script_def mcjit_build_def Script_ctor_def)

section \<open>Construction and the external symbols\<close>

text \<open>
  C4. The Script that the constructor returns has status \<^verbatim>\<open>Unknown\<close>, object kind
  \<^verbatim>\<open>Unknown\<close> and error code \<^verbatim>\<open>BCC_NO_ERROR\<close>, so that a first \<open>getError\<close> returns
  \<^verbatim>\<open>BCC_NO_ERROR\<close>; both source slots are null, the list of external symbols is empty,
  no lookup function and no context are registered; and the process state after the
  construction is the one \<^verbatim>\<open>Compiler::GlobalInitialization\<close> makes of the state before.
\<close>

theorem Script_ctor_initial_state:
  "mStatus (fst (Script_ctor cfg GlobalInitialization indeterminate g)) = ScriptStatus_Unknown
   \<and> mObjectType (fst (Script_ctor cfg GlobalInitialization indeterminate g)) = ScriptObject_Unknown
   \<and> mErrorCode (fst (Script_ctor cfg GlobalInitialization indeterminate g)) = BCC_NO_ERROR cfg
   \<and> fst (getError cfg (fst (Script_ctor cfg GlobalInitialization indeterminate g))) = BCC_NO_ERROR cfg
   \<and> mSourceList (fst (Script_ctor cfg GlobalInitialization indeterminate g)) = [NULL, NULL]
   \<and> getUserDefinedExternalSymbols (fst (Script_ctor cfg GlobalInitialization indeterminate g)) = []
   \<and> mpExtSymbolLookupFn (fst (Script_ctor cfg GlobalInitialization indeterminate g)) = NULL
   \<and> mpExtSymbolLookupFnContext (fst (Script_ctor cfg GlobalInitialization indeterminate g)) = NULL
   \<and> snd (Script_ctor cfg GlobalInitialization indeterminate g) = GlobalInitialization g"
  by (simp add: Script_ctor_def getError_def getUserDefinedExternalSymbols_def)

lemma foldl_markExternalSymbol:
  "mUserDefinedExternalSymbols (foldl markExternalSymbol s ns) = mUserDefinedExternalSymbols s @ ns"
  by (induction ns arbitrary: s) (simp_all add: markExternalSymbol_def)

text \<open>
  C5. \<open>markExternalSymbol s n\<close> puts the one entry \<open>n\<close> at the end of the list of
  external symbols; after the calls with \<open>ns\<close>, in that order, the list is the old one
  followed by \<open>ns\<close>, and on a newly constructed Script
  \<open>getUserDefinedExternalSymbols\<close> returns exactly \<open>ns\<close>.
\<close>

theorem markExternalSymbol_appends:
  "getUserDefinedExternalSymbols (markExternalSymbol s n) = getUserDefinedExternalSymbols s @ [n]
   \<and> getUserDefinedExternalSymbols (foldl markExternalSymbol s ns)
       = getUserDefinedExternalSymbols s @ ns
   \<and> getUserDefinedExternalSymbols
        (foldl markExternalSymbol (fst (Script_ctor cfg GlobalInitialization indeterminate g)) ns) = ns"
  by (simp add: getUserDefinedExternalSymbols_def foldl_markExternalSymbol)
    (simp add: markExternalSymbol_def Script_ctor_def)

section \<open>Introspection before preparation\<close>

lemmas accessor_defs =
  getExportVarCount_def getExportFuncCount_def getExportForEachCount_def getPragmaCount_def
  getFuncCount_def getObjectSlotCount_def getELFSize_def getELF_def

text \<open>
  C6. On a Script whose status is \<^verbatim>\<open>Unknown\<close> the six count accessors and
  \<open>getELFSize\<close> return 0 and \<open>getELF\<close> returns the null result, whatever the union cell
  holds and whatever it points to; so they do on the Script the constructor returns.
  The accessors are the ones modelled from the specification.
\<close>

theorem unprepared_introspection:
  "(mStatus s = ScriptStatus_Unknown \<longrightarrow>
      getExportVarCount unit s = 0 \<and> getExportFuncCount unit s = 0
      \<and> getExportForEachCount unit s = 0 \<and> getPragmaCount unit s = 0
      \<and> getFuncCount unit s = 0 \<and> getObjectSlotCount unit s = 0
      \<and> getELFSize unit s = 0 \<and> getELF unit s = None)
   \<and> getExportVarCount unit (fst (Script_ctor cfg GlobalInitialization indeterminate g)) = 0
   \<and> getExportFuncCount unit (fst (Script_ctor cfg GlobalInitialization indeterminate g)) = 0
   \<and> getExportForEachCount unit (fst (Script_ctor cfg GlobalInitialization indeterminate g)) = 0
   \<and> getPragmaCount unit (fst (Script_ctor cfg GlobalInitialization indeterminate g)) = 0
   \<and> getFuncCount unit (fst (Script_ctor cfg GlobalInitialization indeterminate g)) = 0
   \<and> getObjectSlotCount unit (fst (Script_ctor cfg GlobalInitialization indeterminate g)) = 0
   \<and> getELFSize unit (fst (Script_ctor cfg GlobalInitialization indeterminate g)) = 0
   \<and> getELF unit (fst (Script_ctor cfg GlobalInitialization indeterminate g)) = None"
  by (simp add: accessor_defs Script_ctor_def)

text \<open>A Script of status \<^verbatim>\<open>Unknown\<close> whose union cell holds a stray address.\<close>

theorem unprepared_introspection_witness:
  "mStatus (fresh_script\<lparr>mCompiled := Addr 4096\<rparr>) = ScriptStatus_Unknown
   \<and> getExportVarCount empty_unit (fresh_script\<lparr>mCompiled := Addr 4096\<rparr>) = 0
   \<and> getELFSize empty_unit (fresh_script\<lparr>mCompiled := Addr 4096\<rparr>) = 0
   \<and> getELF empty_unit (fresh_script\<lparr>mCompiled := Addr 4096\<rparr>) = None"
  using unprepared_introspection [of "fresh_script\<lparr>mCompiled := Addr 4096\<rparr>" empty_unit]
  by (simp add: fresh_script_def Script_ctor_def)

section \<open>What the error accessors touch\<close>

text \<open>
  C10. \<open>setError\<close> and \<open>getError\<close> write no member but \<open>mErrorCode\<close>: the Script after
  the call is the Script before with at most that field replaced, so the status, the
  object kind, the union cell (read as \<open>mCompiled\<close> or as \<open>mCached\<close>), both source
  slots, the list of external symbols, the lookup function and its context, the cache
  directory and name and \<open>mIsContextSlotNotAvail\<close> are as before. They read no other
  member either: on any Script \<open>t\<close> given the error code of \<open>s\<close> they store and return
  what they do on \<open>s\<close>.
\<close>

theorem error_accessors_frame:
  "setError cfg s B = s\<lparr>mErrorCode := mErrorCode (setError cfg s B)\<rparr>
   \<and> snd (getError cfg s) = s\<lparr>mErrorCode := mErrorCode (snd (getError cfg s))\<rparr>
   \<and> mStatus (setError cfg s B) = mStatus s
   \<and> mObjectType (setError cfg s B) = mObjectType s
   \<and> mCompiled (setError cfg s B) = mCompiled s
   \<and> mCached (setError cfg s B) = mCached s
   \<and> mSourceList (setError cfg s B) = mSourceList s
   \<and> mUserDefinedExternalSymbols (setError cfg s B) = mUserDefinedExternalSymbols s
   \<and> mpExtSymbolLookupFn (setError cfg s B) = mpExtSymbolLookupFn s
   \<and> mpExtSymbolLookupFnContext (setError cfg s B) = mpExtSymbolLookupFnContext s
   \<and> mCacheDir (setError cfg s B) = mCacheDir s
   \<and> mCacheName (setError cfg s B) = mCacheName s
   \<and> mIsContextSlotNotAvail (setError cfg s B) = mIsContextSlotNotAvail s
   \<and> mStatus (snd (getError cfg s)) = mStatus s
   \<and> mObjectType (snd (getError cfg s)) = mObjectType s
   \<and> mCompiled (snd (getError cfg s)) = mCompiled s
   \<and> mCached (snd (getError cfg s)) = mCached s
   \<and> mSourceList (snd (getError cfg s)) = mSourceList s
   \<and> mUserDefinedExternalSymbols (snd (getError cfg s)) = mUserDefinedExternalSymbols s
   \<and> mpExtSymbolLookupFn (snd (getError cfg s)) = mpExtSymbolLookupFn s
   \<and> mpExtSymbolLookupFnContext (snd (getError cfg s)) = mpExtSymbolLookupFnContext s
   \<and> mCacheDir (snd (getError cfg s)) = mCacheDir s
   \<and> mCacheName (snd (getError cfg s)) = mCacheName s
   \<and> mIsContextSlotNotAvail (snd (getError cfg s)) = mIsContextSlotNotAvail s
   \<and> mErrorCode (setError cfg (t\<lparr>mErrorCode := mErrorCode s\<rparr>) B) = mErrorCode (setError cfg s B)
   \<and> fst (getError cfg (t\<lparr>mErrorCode := mErrorCode s\<rparr>)) = fst (getError cfg s)
   \<and> mErrorCode (snd (getError cfg (t\<lparr>mErrorCode := mErrorCode s\<rparr>)))
       = mErrorCode (snd (getError cfg s))"
  by (simp add: setError_def getError_def mCached_def)

end
